theory Spec2Isabelle
  imports Complex_Main "HOL-Library.Sublist" "HOL-Library.Word"
begin

section \<open>JavaScript values and strings\<close>

text \<open>
  The values that the optional tunables of \<^verbatim>\<open>callRagBrain\<close> can hold. A finite number is a
  rational (\<^verbatim>\<open>0\<close> and \<^verbatim>\<open>-0\<close> are both \<open>JNum 0\<close>); \<open>JUndefined\<close> is an absent field.
\<close>

datatype js_value = JUndefined | JNull | JBool bool | JNum rat | JNaN | JStr string

text \<open>JavaScript truthiness: the falsy values are \<^verbatim>\<open>undefined, null, false, 0, NaN, ''\<close>.\<close>

fun truthy :: "js_value \<Rightarrow> bool" where
  "truthy JUndefined = False"
| "truthy JNull = False"
| "truthy (JBool b) = b"
| "truthy (JNum r) = (r \<noteq> 0)"
| "truthy JNaN = False"
| "truthy (JStr s) = (s \<noteq> [])"

text \<open>The operator \<^verbatim>\<open>a || b\<close>.\<close>

definition js_or :: "js_value \<Rightarrow> js_value \<Rightarrow> js_value" where
  "js_or a b = (if truthy a then a else b)"

text \<open>
  A JavaScript string is a sequence of UTF-16 code units. The query and the vertical id of
  \<^verbatim>\<open>callRagBrain\<close> are trimmed, so they are modelled as such sequences; \<open>ascii\<close> writes one
  from an ASCII literal.
\<close>

type_synonym js_string = "16 word list"

definition ascii :: "string \<Rightarrow> js_string" where
  "ascii s = map of_char s"

text \<open>
  \<^verbatim>\<open>String.prototype.trim\<close> removes the white space and line terminator code points at both
  ends: tab, line feed, vertical tab, form feed, carriage return, space, no-break space
  (U+00A0), the other space separators (U+1680, U+2000 to U+200A, U+202F, U+205F, U+3000), the
  line and paragraph separators (U+2028, U+2029) and the byte order mark (U+FEFF). Each is one
  code unit.
\<close>

definition is_space :: "16 word \<Rightarrow> bool" where
  "is_space c =
     (c \<in> set [0x0009, 0x000A, 0x000B, 0x000C, 0x000D, 0x0020, 0x00A0, 0x1680, 0x2028, 0x2029,
               0x202F, 0x205F, 0x3000, 0xFEFF]
      \<or> (0x2000 \<le> c \<and> c \<le> 0x200A))"

definition trim :: "js_string \<Rightarrow> js_string" where
  "trim s = rev (dropWhile is_space (rev (dropWhile is_space s)))"

text \<open>
  The other strings are only compared, searched or passed on; they are byte lists (UTF-8).
  \<^verbatim>\<open>String.prototype.toLowerCase\<close> on the ASCII letters; other bytes are unchanged.
\<close>

definition lower_char :: "char \<Rightarrow> char" where
  "lower_char c =
     (let n = (of_char c :: nat) in if 65 \<le> n \<and> n \<le> 90 then char_of (n + 32) else c)"

definition toLowerCase :: "string \<Rightarrow> string" where
  "toLowerCase s = map lower_char s"

text \<open>\<^verbatim>\<open>s.includes(w)\<close>: \<open>w\<close> occurs in \<open>s\<close> as a contiguous run.\<close>

definition includes_str :: "string \<Rightarrow> string \<Rightarrow> bool" where
  "includes_str s w = sublist w s"

text \<open>The decimal digits of a number, for the template \<^verbatim>\<open>`Erreur HTTP: ${response.status}`\<close>.\<close>

definition digit_char :: "nat \<Rightarrow> char" where
  "digit_char d = char_of (of_char CHR ''0'' + d)"

fun decimal :: "nat \<Rightarrow> string" where
  "decimal n = (if 10 \<le> n then decimal (n div 10) @ [digit_char (n mod 10)] else [digit_char n])"

section \<open>The retrieval call: \<^verbatim>\<open>callRagBrain\<close> (lib/supabaseClient)\<close>

record principal =
  principal_id :: string
  principal_email :: string

record session =
  access_token :: string
  session_user :: "principal option"

text \<open>The outcome of \<^verbatim>\<open>await supabase.auth.getSession()\<close>.\<close>

datatype session_probe = SessionThrew string | SessionGot "session option"

record rag_options =
  matchThreshold :: js_value
  matchCount :: js_value

text \<open>\<^verbatim>\<open>options = {}\<close>: both tunables absent.\<close>

definition no_options :: rag_options where
  "no_options = \<lparr>matchThreshold = JUndefined, matchCount = JUndefined\<rparr>"

text \<open>The JSON body of the request and the bearer token of its Authorization header.\<close>

record rag_request =
  req_query :: js_string
  req_vertical_id :: js_string
  req_match_threshold :: js_value
  req_match_count :: js_value
  req_bearer :: string

text \<open>
  The parsed JSON body of the response; \<open>body_sources = None\<close> and \<open>body_error = None\<close> are
  absent (or null) fields.
\<close>

record rag_body =
  body_success :: bool
  body_answer :: string
  body_sources :: "string list option"
  body_processing_time_ms :: rat
  body_error :: "string option"

datatype json_parse = JsonThrew string | JsonBody rag_body

text \<open>
  What \<^verbatim>\<open>fetch\<close> gives: a rejected promise, or a response with \<^verbatim>\<open>ok\<close>, \<^verbatim>\<open>status\<close> and
  the outcome of \<^verbatim>\<open>response.json()\<close>.
\<close>

datatype fetch_result = FetchRejected string | FetchResponse bool nat json_parse

record rag_data =
  answer :: string
  sources :: "string list"
  processingTime :: rat

text \<open>The returned pair \<^verbatim>\<open>{data, error}\<close>; the error is an \<^verbatim>\<open>Error\<close> with its message.\<close>

record rag_result =
  rag_data :: "rag_data option"
  rag_error :: "string option"

definition msg_unauthenticated :: string where
  "msg_unauthenticated = ''Utilisateur non authentifi'' @ [CHR 0xC3, CHR 0xA9]"

definition msg_empty_query :: string where
  "msg_empty_query =
     ''La requ'' @ [CHR 0xC3, CHR 0xAA] @ ''te ne peut pas '' @ [CHR 0xC3, CHR 0xAA] @ ''tre vide''"

definition msg_vertical_required :: string where
  "msg_vertical_required = ''L'' @ [CHR 0x27] @ ''ID de la verticale est requis''"

definition msg_unknown_edge :: string where
  "msg_unknown_edge = ''Erreur inconnue de l'' @ [CHR 0x27] @ ''Edge Function''"

definition rag_failure :: "string \<Rightarrow> rag_result" where
  "rag_failure m = \<lparr>rag_data = None, rag_error = Some m\<rparr>"

text \<open>\<^verbatim>\<open>!query || query.trim() === ''\<close>, with \<open>None\<close> for an absent argument.\<close>

definition blank :: "js_string option \<Rightarrow> bool" where
  "blank q = (case q of None \<Rightarrow> True | Some s \<Rightarrow> s = [] \<or> trim s = [])"

definition requestBody ::
  "session \<Rightarrow> js_string \<Rightarrow> js_string \<Rightarrow> rag_options \<Rightarrow> rag_request" where
  "requestBody sess query verticalId options =
     \<lparr>req_query = trim query,
      req_vertical_id = trim verticalId,
      req_match_threshold = js_or (matchThreshold options) (JNum (1 / 2)),
      req_match_count = js_or (matchCount options) (JNum 5),
      req_bearer = access_token sess\<rparr>"

text \<open>The part of \<^verbatim>\<open>callRagBrain\<close> after \<^verbatim>\<open>await fetch(...)\<close>.\<close>

definition interpret_response :: "fetch_result \<Rightarrow> rag_result" where
  "interpret_response r =
     (case r of
        FetchRejected m \<Rightarrow> rag_failure m
      | FetchResponse ok status parsed \<Rightarrow>
          (case parsed of
             JsonThrew m \<Rightarrow> rag_failure m
           | JsonBody d \<Rightarrow>
               if \<not> ok then
                 rag_failure (case body_error d of
                                Some e \<Rightarrow> if e \<noteq> [] then e else ''Erreur HTTP: '' @ decimal status
                              | None \<Rightarrow> ''Erreur HTTP: '' @ decimal status)
               else if \<not> body_success d then
                 rag_failure (case body_error d of
                                Some e \<Rightarrow> if e \<noteq> [] then e else msg_unknown_edge
                              | None \<Rightarrow> msg_unknown_edge)
               else
                 \<lparr>rag_data = Some \<lparr>answer = body_answer d,
                                   sources = (case body_sources d of Some xs \<Rightarrow> xs | None \<Rightarrow> []),
                                   processingTime = body_processing_time_ms d\<rparr>,
                  rag_error = None\<rparr>))"

text \<open>
  \<^verbatim>\<open>callRagBrain(query, verticalId, options)\<close>. The session probe and the retrieval service are
  the environment; the result carries the requests sent to the service, in order, beside the
  returned pair.
\<close>

definition callRagBrain ::
  "session_probe \<Rightarrow> (rag_request \<Rightarrow> fetch_result) \<Rightarrow> js_string option \<Rightarrow>
     js_string option \<Rightarrow> rag_options \<Rightarrow> rag_request list \<times> rag_result" where
  "callRagBrain probe service query verticalId options =
     (case probe of
        SessionThrew m \<Rightarrow> ([], rag_failure m)
      | SessionGot None \<Rightarrow> ([], rag_failure msg_unauthenticated)
      | SessionGot (Some sess) \<Rightarrow>
          if blank query then ([], rag_failure msg_empty_query)
          else if blank verticalId then ([], rag_failure msg_vertical_required)
          else
            let req = requestBody sess (the query) (the verticalId) options
            in ([req], interpret_response (service req)))"

section \<open>The authentication state: \<^verbatim>\<open>AuthProvider\<close> (contexts/AuthContext)\<close>

record profile =
  profile_id :: string
  org_id :: "string option"
  business_role :: "string option"
  app_role :: "string option"

record organization =
  organization_id :: string
  organization_name :: string

text \<open>The error object of a data-store reply, and the destructured reply \<^verbatim>\<open>{data, error}\<close>.\<close>

record pg_error =
  pg_code :: string
  pg_message :: string

datatype 'a store_reply = StoreRejected string | StoreReply "'a option" "pg_error option"

type_synonym metadata = "(string \<times> string) list"

text \<open>The calls that leave the client, recorded in the order they are issued.\<close>

datatype net_call =
    FetchProfile string
  | FetchOrganization string
  | CheckEmailExists string
  | AuthSignUp string string metadata

text \<open>
  The six state cells of the provider, its three refs, the \<^verbatim>\<open>mounted\<close> variable of the effect,
  and the trace of calls.
\<close>

record auth_state =
  user :: "principal option"
  session :: "session option"
  profile :: "profile option"
  organization :: "organization option"
  loading :: bool
  error :: "string option"
  profileLoadedRef :: bool
  loadingProfileRef :: bool
  signingUpRef :: bool
  mounted :: bool
  calls :: "net_call list"

definition initial_state :: auth_state where
  "initial_state =
     \<lparr>user = None, session = None, profile = None, organization = None, loading = True,
      error = None, profileLoadedRef = False, loadingProfileRef = False, signingUpRef = False,
      mounted = True, calls = []\<rparr>"

subsection \<open>\<^verbatim>\<open>loadUserProfile\<close>\<close>

text \<open>
  An asynchronous function runs from one \<^verbatim>\<open>await\<close> to the next without interruption. Each
  part of \<^verbatim>\<open>loadUserProfile\<close> is a function on the state that says where the call stands
  afterwards: returned, or suspended on one of its two fetches.
\<close>

datatype load_phase = Returned | AwaitProfile | AwaitOrganization

text \<open>The \<^verbatim>\<open>finally\<close> block, and the \<^verbatim>\<open>catch\<close> block followed by it.\<close>

definition load_finally :: "auth_state \<Rightarrow> auth_state" where
  "load_finally s = s\<lparr>loadingProfileRef := False\<rparr>"

definition load_catch :: "string \<Rightarrow> auth_state \<Rightarrow> auth_state" where
  "load_catch m s = load_finally (s\<lparr>error := Some m, profileLoadedRef := True\<rparr>)"

text \<open>From the call to the first \<^verbatim>\<open>await\<close>.\<close>

definition loadUserProfile :: "string \<Rightarrow> auth_state \<Rightarrow> load_phase \<times> auth_state" where
  "loadUserProfile userId s =
     (if loadingProfileRef s then (Returned, s)
      else (AwaitProfile, s\<lparr>loadingProfileRef := True, calls := calls s @ [FetchProfile userId]\<rparr>))"

text \<open>\<^verbatim>\<open>profileData?.org_id\<close> as a condition: present and not the empty string.\<close>

definition org_reference :: "profile option \<Rightarrow> string option" where
  "org_reference p =
     (case p of
        None \<Rightarrow> None
      | Some d \<Rightarrow> (case org_id d of None \<Rightarrow> None | Some oid \<Rightarrow> if oid = [] then None else Some oid))"

text \<open>From the reply of the profile fetch to the next \<^verbatim>\<open>await\<close> or to the return.\<close>

definition loadUserProfile_profile ::
  "profile store_reply \<Rightarrow> auth_state \<Rightarrow> load_phase \<times> auth_state" where
  "loadUserProfile_profile r s =
     (case r of
        StoreRejected m \<Rightarrow> (Returned, load_catch m s)
      | StoreReply profileData (Some profileError) \<Rightarrow>
          if pg_code profileError = ''PGRST116'' then
            (Returned,
             load_finally (s\<lparr>profile := None, organization := None, profileLoadedRef := True\<rparr>))
          else (Returned, load_catch (pg_message profileError) s)
      | StoreReply profileData None \<Rightarrow>
          (let s1 = s\<lparr>profile := profileData\<rparr> in
           case org_reference profileData of
             Some oid \<Rightarrow> (AwaitOrganization, s1\<lparr>calls := calls s1 @ [FetchOrganization oid]\<rparr>)
           | None \<Rightarrow> (Returned, load_finally (s1\<lparr>profileLoadedRef := True\<rparr>))))"

text \<open>From the reply of the organization fetch to the return.\<close>

definition loadUserProfile_organization ::
  "organization store_reply \<Rightarrow> auth_state \<Rightarrow> load_phase \<times> auth_state" where
  "loadUserProfile_organization r s =
     (case r of
        StoreRejected m \<Rightarrow> (Returned, load_catch m s)
      | StoreReply orgData orgError \<Rightarrow>
          (let s1 = (if orgError = None then s\<lparr>organization := orgData\<rparr> else s)
           in (Returned, load_finally (s1\<lparr>profileLoadedRef := True\<rparr>))))"

subsection \<open>The callers of \<^verbatim>\<open>loadUserProfile\<close>\<close>

text \<open>
  A suspended call is a pending task. A load remembers which caller awaits it, since the caller
  goes on once the load has returned.
\<close>

datatype caller = InitSession | SignedInTimer | RefreshProfile

datatype task =
    SessionProbe
  | Timer string
  | ProfileFetch caller
  | OrganizationFetch caller
  | EmailCheck string string metadata
  | AuthSignUpCall

text \<open>
  What the caller does after \<^verbatim>\<open>await loadUserProfile(...)\<close>: \<^verbatim>\<open>initSession\<close> runs its
  \<^verbatim>\<open>finally\<close> block, the timer callback lowers \<^verbatim>\<open>loading\<close>, \<^verbatim>\<open>refreshProfile\<close> returns.
\<close>

definition after_load :: "caller \<Rightarrow> auth_state \<Rightarrow> auth_state" where
  "after_load c s =
     (case c of
        InitSession \<Rightarrow> (if mounted s then s\<lparr>loading := False\<rparr> else s)
      | SignedInTimer \<Rightarrow> s\<lparr>loading := False\<rparr>
      | RefreshProfile \<Rightarrow> s)"

definition continue_caller :: "caller \<Rightarrow> load_phase \<times> auth_state \<Rightarrow> task list \<times> auth_state" where
  "continue_caller c r =
     (case fst r of
        Returned \<Rightarrow> ([], after_load c (snd r))
      | AwaitProfile \<Rightarrow> ([ProfileFetch c], snd r)
      | AwaitOrganization \<Rightarrow> ([OrganizationFetch c], snd r))"

text \<open>\<^verbatim>\<open>newSession?.user ?? null\<close>.\<close>

definition user_of :: "session option \<Rightarrow> principal option" where
  "user_of ns = (case ns of None \<Rightarrow> None | Some x \<Rightarrow> session_user x)"

text \<open>\<^verbatim>\<open>initSession\<close> after \<^verbatim>\<open>await supabase.auth.getSession()\<close>.\<close>

definition initSession_probed :: "session_probe \<Rightarrow> auth_state \<Rightarrow> task list \<times> auth_state" where
  "initSession_probed r s =
     (case r of
        SessionThrew m \<Rightarrow> ([], if mounted s then s\<lparr>error := Some m, loading := False\<rparr> else s)
      | SessionGot initialSession \<Rightarrow>
          if \<not> mounted s then ([], s)
          else
            (let s1 = s\<lparr>session := initialSession, user := user_of initialSession\<rparr> in
             case user_of initialSession of
               None \<Rightarrow> ([], s1\<lparr>loading := False\<rparr>)
             | Some u \<Rightarrow> continue_caller InitSession (loadUserProfile (principal_id u) s1)))"

text \<open>The handler given to \<^verbatim>\<open>supabase.auth.onAuthStateChange\<close>.\<close>

definition onAuthStateChange ::
  "string \<Rightarrow> session option \<Rightarrow> auth_state \<Rightarrow> task list \<times> auth_state" where
  "onAuthStateChange event newSession s =
     (if \<not> mounted s then ([], s)
      else
        (let s1 = s\<lparr>session := newSession, user := user_of newSession\<rparr> in
         case (if event = ''SIGNED_IN'' then user_of newSession else None) of
           Some u \<Rightarrow>
             ([Timer (principal_id u)], s1\<lparr>profileLoadedRef := False, loadingProfileRef := False\<rparr>)
         | None \<Rightarrow>
             if event = ''SIGNED_OUT'' then
               ([], s1\<lparr>profile := None, organization := None, profileLoadedRef := False,
                       loadingProfileRef := False, loading := False\<rparr>)
             else ([], s1\<lparr>loading := False\<rparr>)))"

text \<open>The callback given to \<^verbatim>\<open>setTimeout\<close> by the handler.\<close>

definition timer_callback :: "string \<Rightarrow> auth_state \<Rightarrow> task list \<times> auth_state" where
  "timer_callback userId s =
     (if mounted s then continue_caller SignedInTimer (loadUserProfile userId s) else ([], s))"

definition refreshProfile :: "auth_state \<Rightarrow> task list \<times> auth_state" where
  "refreshProfile s =
     (case user s of
        None \<Rightarrow> ([], s)
      | Some u \<Rightarrow>
          if principal_id u = [] then ([], s)
          else continue_caller RefreshProfile
                 (loadUserProfile (principal_id u)
                    (s\<lparr>profileLoadedRef := False, loadingProfileRef := False\<rparr>)))"

subsection \<open>\<^verbatim>\<open>checkEmailExists\<close> (lib/supabaseClient) and \<^verbatim>\<open>signUp\<close>\<close>

text \<open>The reply of \<^verbatim>\<open>supabase.rpc('check_email_exists', ...)\<close>.\<close>

datatype rpc_reply = RpcRejected string | RpcReply js_value "pg_error option"

text \<open>
  \<^verbatim>\<open>checkEmailExists(email)\<close>: an empty email gives \<^verbatim>\<open>false\<close> without a remote call (the reply
  is not consulted); the function catches every exception.
\<close>

definition checkEmailExists :: "string \<Rightarrow> rpc_reply \<Rightarrow> bool" where
  "checkEmailExists email r =
     (if email = [] then False
      else case r of
             RpcRejected m \<Rightarrow> False
           | RpcReply d (Some e) \<Rightarrow> False
           | RpcReply d None \<Rightarrow> d = JBool True \<or> d = JStr ''true'' \<or> d = JNum 1)"

text \<open>The error object of the identity provider: \<^verbatim>\<open>status\<close> is a number, \<^verbatim>\<open>code\<close> a string.\<close>

record auth_error =
  ae_message :: string
  ae_status :: "nat option"
  ae_code :: "string option"

record signup_data =
  new_user :: "principal option"
  new_session :: "session option"

datatype auth_reply = AuthRejected string | AuthReply signup_data "auth_error option"

text \<open>
  The error of the returned pair: an object literal with \<^verbatim>\<open>message\<close>, \<^verbatim>\<open>code\<close> and
  \<^verbatim>\<open>originalError\<close> (the last two may be absent), or the provider's own error object.
\<close>

datatype signup_error =
    ErrorObject string "string option" "auth_error option"
  | ProviderError auth_error

record signup_result =
  result_data :: "signup_data option"
  result_error :: "signup_error option"

definition msg_signup_in_progress :: string where
  "msg_signup_in_progress =
     ''Une inscription est d'' @ [CHR 0xC3, CHR 0xA9] @ ''j'' @ [CHR 0xC3, CHR 0xA0] @ '' en cours.''"

definition msg_email_exists :: string where
  "msg_email_exists =
     ''Un compte existe d'' @ [CHR 0xC3, CHR 0xA9] @ ''j'' @ [CHR 0xC3, CHR 0xA0]
     @ '' avec cet email. Veuillez vous connecter ou utiliser la r''
     @ [CHR 0xC3, CHR 0xA9] @ ''initialisation de mot de passe.''"

definition msg_unexpected :: string where
  "msg_unexpected = ''Une erreur inattendue s'' @ [CHR 0x27] @ ''est produite.''"

text \<open>\<^verbatim>\<open>error.status || error.code || ''\<close>.\<close>

datatype status_or_code = StatusNumber nat | CodeText string

definition errorStatus :: "auth_error \<Rightarrow> status_or_code" where
  "errorStatus e =
     (let fallback = (case ae_code e of Some c \<Rightarrow> CodeText c | None \<Rightarrow> CodeText [])
      in case ae_status e of
           Some n \<Rightarrow> if n \<noteq> 0 then StatusNumber n else fallback
         | None \<Rightarrow> fallback)"

definition isEmailExists :: "auth_error \<Rightarrow> bool" where
  "isEmailExists e =
     (let errorMessage = ae_message e;
          errorLower = toLowerCase errorMessage
      in errorStatus e = StatusNumber 422 \<or>
         errorStatus e = StatusNumber 400 \<or>
         includes_str errorLower ''already'' \<or>
         includes_str errorLower ''exists'' \<or>
         includes_str errorLower ''registered'' \<or>
         includes_str errorLower ''duplicate'' \<or>
         errorMessage = ''User already registered'' \<or>
         errorMessage = ''Email already registered'' \<or>
         errorMessage = ''A user with this email already exists'')"

datatype signup_phase = SignUpReturned signup_result | AwaitEmailCheck | AwaitAuthSignUp

text \<open>The outcome of \<^verbatim>\<open>await supabaseHelpers.checkEmailExists(email)\<close> as \<^verbatim>\<open>signUp\<close> sees it.\<close>

datatype check_outcome = CheckThrew | CheckResult bool

definition signUp_finally :: "auth_state \<Rightarrow> auth_state" where
  "signUp_finally s = s\<lparr>loading := False, signingUpRef := False\<rparr>"

text \<open>
  From the call to the first \<^verbatim>\<open>await\<close>; \<open>helper\<close> says whether
  \<^verbatim>\<open>supabaseHelpers.checkEmailExists\<close> is a function.
\<close>

definition signUp ::
  "bool \<Rightarrow> string \<Rightarrow> string \<Rightarrow> metadata \<Rightarrow> auth_state \<Rightarrow> signup_phase \<times> auth_state" where
  "signUp helper email password md s =
     (if signingUpRef s then
        (SignUpReturned
           \<lparr>result_data = None,
            result_error = Some (ErrorObject msg_signup_in_progress None None)\<rparr>, s)
      else
        (let s1 = s\<lparr>signingUpRef := True, loading := True\<rparr> in
         if helper then (AwaitEmailCheck, s1\<lparr>calls := calls s1 @ [CheckEmailExists email]\<rparr>)
         else (AwaitAuthSignUp, s1\<lparr>calls := calls s1 @ [AuthSignUp email password md]\<rparr>)))"

text \<open>From the outcome of the pre-check to the return or to the provider call.\<close>

definition signUp_checked ::
  "check_outcome \<Rightarrow> string \<Rightarrow> string \<Rightarrow> metadata \<Rightarrow> auth_state \<Rightarrow> signup_phase \<times> auth_state" where
  "signUp_checked outcome email password md s =
     (if outcome = CheckResult True then
        (SignUpReturned
           \<lparr>result_data = None,
            result_error = Some (ErrorObject msg_email_exists (Some ''EMAIL_EXISTS'') None)\<rparr>,
         signUp_finally (s\<lparr>error := Some msg_email_exists, signingUpRef := False, loading := False\<rparr>))
      else (AwaitAuthSignUp, s\<lparr>calls := calls s @ [AuthSignUp email password md]\<rparr>))"

text \<open>From the reply of \<^verbatim>\<open>supabase.auth.signUp\<close> to the return.\<close>

definition signUp_replied :: "auth_reply \<Rightarrow> auth_state \<Rightarrow> signup_result \<times> auth_state" where
  "signUp_replied r s =
     (case r of
        AuthRejected m \<Rightarrow>
          (let errorMessage = (if m \<noteq> [] then m else msg_unexpected) in
           (\<lparr>result_data = None,
             result_error = Some (ErrorObject errorMessage (Some ''UNKNOWN_ERROR'') None)\<rparr>,
            signUp_finally (s\<lparr>error := Some errorMessage, signingUpRef := False\<rparr>)))
      | AuthReply d (Some e) \<Rightarrow>
          if isEmailExists e then
            (\<lparr>result_data = None,
              result_error = Some (ErrorObject msg_email_exists (Some ''EMAIL_EXISTS'') (Some e))\<rparr>,
             signUp_finally s)
          else (\<lparr>result_data = None, result_error = Some (ProviderError e)\<rparr>, signUp_finally s)
      | AuthReply d None \<Rightarrow>
          (\<lparr>result_data = Some d, result_error = None\<rparr>,
           signUp_finally (s\<lparr>signingUpRef := False\<rparr>)))"

text \<open>
  The classification of a provider error in the words of the specification: the status first,
  then the four fragments, then the three known phrasings, else the error unchanged.
\<close>

definition spec_classification :: "auth_error \<Rightarrow> signup_error" where
  "spec_classification e =
     (if ae_status e = Some 422 \<or> ae_status e = Some 400 then
        ErrorObject msg_email_exists (Some ''EMAIL_EXISTS'') (Some e)
      else if \<exists>w \<in> set [''already'', ''exists'', ''registered'', ''duplicate''].
                 includes_str (toLowerCase (ae_message e)) w then
        ErrorObject msg_email_exists (Some ''EMAIL_EXISTS'') (Some e)
      else if ae_message e \<in> set [''User already registered'', ''Email already registered'',
                                   ''A user with this email already exists''] then
        ErrorObject msg_email_exists (Some ''EMAIL_EXISTS'') (Some e)
      else ProviderError e)"

section \<open>The event loop\<close>

text \<open>
  One thread runs the tasks: the state, the suspended calls, and the results that \<^verbatim>\<open>signUp\<close>
  has returned to its callers so far.
\<close>

record system =
  state :: auth_state
  pending :: "task list"
  returned :: "signup_result list"

text \<open>The effect has run: \<^verbatim>\<open>initSession\<close> waits for the session and the handler is subscribed.\<close>

definition initial_system :: system where
  "initial_system = \<lparr>state = initial_state, pending = [SessionProbe], returned = []\<rparr>"

text \<open>
  What can happen next: a pending call is settled by the environment (its position in the list
  of pending tasks and the reply), the provider notifies, a timer fires, a consumer calls
  \<^verbatim>\<open>refreshProfile\<close> or \<^verbatim>\<open>signUp\<close>, the provider is unmounted.
\<close>

datatype event =
    SessionProbed nat session_probe
  | AuthEvent string "session option"
  | TimerFired nat
  | ProfileReplied nat "profile store_reply"
  | OrganizationReplied nat "organization store_reply"
  | RefreshProfileCalled
  | SignUpCalled bool string string metadata
  | EmailChecked nat check_outcome
  | AuthSignUpReplied nat auth_reply
  | Unmounted

definition take_task :: "nat \<Rightarrow> task list \<Rightarrow> (task \<times> task list) option" where
  "take_task i ts = (if i < length ts then Some (ts ! i, take i ts @ drop (Suc i) ts) else None)"

definition resume :: "task list \<Rightarrow> task list \<times> auth_state \<Rightarrow> system \<Rightarrow> system" where
  "resume rest r sys = sys\<lparr>state := snd r, pending := rest @ fst r\<rparr>"

definition resume_signUp ::
  "task list \<Rightarrow> task \<Rightarrow> signup_phase \<times> auth_state \<Rightarrow> system \<Rightarrow> system" where
  "resume_signUp rest next r sys =
     (case fst r of
        SignUpReturned res \<Rightarrow>
          sys\<lparr>state := snd r, pending := rest, returned := returned sys @ [res]\<rparr>
      | AwaitEmailCheck \<Rightarrow> sys\<lparr>state := snd r, pending := rest @ [next]\<rparr>
      | AwaitAuthSignUp \<Rightarrow> sys\<lparr>state := snd r, pending := rest @ [AuthSignUpCall]\<rparr>)"

text \<open>An event that names no pending task of its kind changes nothing.\<close>

definition step :: "event \<Rightarrow> system \<Rightarrow> system" where
  "step e sys =
     (case e of
        SessionProbed i r \<Rightarrow>
          (case take_task i (pending sys) of
             Some (SessionProbe, rest) \<Rightarrow> resume rest (initSession_probed r (state sys)) sys
           | _ \<Rightarrow> sys)
      | AuthEvent ev newSession \<Rightarrow>
          resume (pending sys) (onAuthStateChange ev newSession (state sys)) sys
      | TimerFired i \<Rightarrow>
          (case take_task i (pending sys) of
             Some (Timer userId, rest) \<Rightarrow> resume rest (timer_callback userId (state sys)) sys
           | _ \<Rightarrow> sys)
      | ProfileReplied i r \<Rightarrow>
          (case take_task i (pending sys) of
             Some (ProfileFetch c, rest) \<Rightarrow>
               resume rest (continue_caller c (loadUserProfile_profile r (state sys))) sys
           | _ \<Rightarrow> sys)
      | OrganizationReplied i r \<Rightarrow>
          (case take_task i (pending sys) of
             Some (OrganizationFetch c, rest) \<Rightarrow>
               resume rest (continue_caller c (loadUserProfile_organization r (state sys))) sys
           | _ \<Rightarrow> sys)
      | RefreshProfileCalled \<Rightarrow> resume (pending sys) (refreshProfile (state sys)) sys
      | SignUpCalled helper email password md \<Rightarrow>
          resume_signUp (pending sys) (EmailCheck email password md)
            (signUp helper email password md (state sys)) sys
      | EmailChecked i outcome \<Rightarrow>
          (case take_task i (pending sys) of
             Some (EmailCheck email password md, rest) \<Rightarrow>
               resume_signUp rest AuthSignUpCall
                 (signUp_checked outcome email password md (state sys)) sys
           | _ \<Rightarrow> sys)
      | AuthSignUpReplied i r \<Rightarrow>
          (case take_task i (pending sys) of
             Some (AuthSignUpCall, rest) \<Rightarrow>
               (let (res, s') = signUp_replied r (state sys)
                in sys\<lparr>state := s', pending := rest, returned := returned sys @ [res]\<rparr>)
           | _ \<Rightarrow> sys)
      | Unmounted \<Rightarrow> sys\<lparr>state := (state sys)\<lparr>mounted := False\<rparr>\<rparr>)"

fun run :: "event list \<Rightarrow> system \<Rightarrow> system" where
  "run [] sys = sys"
| "run (e # es) sys = run es (step e sys)"

text \<open>A signup is in flight while one of its two awaited calls is pending.\<close>

fun signup_task :: "task \<Rightarrow> bool" where
  "signup_task (EmailCheck email password md) = True"
| "signup_task AuthSignUpCall = True"
| "signup_task t = False"

definition signups_in_flight :: "system \<Rightarrow> nat" where
  "signups_in_flight sys = length (filter signup_task (pending sys))"

text \<open>The flag \<^verbatim>\<open>signingUpRef\<close> says exactly whether a signup is in flight, and there is at most one.\<close>

definition signup_guard_inv :: "system \<Rightarrow> bool" where
  "signup_guard_inv sys = (signups_in_flight sys = (if signingUpRef (state sys) then 1 else 0))"

subsection \<open>Sample data\<close>

definition alice :: principal where
  "alice = \<lparr>principal_id = ''u1'', principal_email = ''alice@example.com''\<rparr>"

definition alice_session :: session where
  "alice_session = \<lparr>access_token = ''token'', session_user = Some alice\<rparr>"

definition alice_profile :: profile where
  "alice_profile =
     \<lparr>profile_id = ''u1'', org_id = Some ''o1'', business_role = Some ''auditor'',
      app_role = Some ''user''\<rparr>"

definition acme :: organization where
  "acme = \<lparr>organization_id = ''o1'', organization_name = ''Acme''\<rparr>"

section \<open>Properties of \<^verbatim>\<open>callRagBrain\<close>\<close>

lemma blank_iff: "blank q \<longleftrightarrow> (\<forall>s. q = Some s \<longrightarrow> trim s = [])"
  by (cases q) (auto simp: blank_def trim_def)

lemma trim_example:
  "trim (ascii ''What is X?'') = ascii ''What is X?''" "trim (ascii ''audit'') = ascii ''audit''"
  "trim (ascii ''   '') = []" "trim [] = []" "trim [0x00A0] = []" "trim [0x3000, 0xFEFF] = []"
  "ascii ''What is X?'' \<noteq> []" "ascii ''audit'' \<noteq> []"
  by (simp_all add: trim_def is_space_def ascii_def)

text \<open>
  C3. When a session exists, the query and the vertical id are not blank, the service answers
  with an ok status and a body whose \<^verbatim>\<open>success\<close> flag is set, \<^verbatim>\<open>callRagBrain\<close> sends one
  request and returns the record of \<^verbatim>\<open>answer\<close>, \<^verbatim>\<open>sources\<close> (the list as the service returned
  it, the empty list when the body has none) and the processing time (the field
  \<^verbatim>\<open>processingTime\<close> of the source, the specification's \<^verbatim>\<open>processingTimeMs\<close>), with no error.
\<close>

theorem callRagBrain_success:
  assumes "trim q \<noteq> []" and "trim v \<noteq> []"
    and "service (requestBody sess q v options) = FetchResponse True status (JsonBody d)"
    and "body_success d"
  shows "callRagBrain (SessionGot (Some sess)) service (Some q) (Some v) options =
           ([requestBody sess q v options],
            \<lparr>rag_data = Some \<lparr>answer = body_answer d,
                              sources = (case body_sources d of None \<Rightarrow> [] | Some xs \<Rightarrow> xs),
                              processingTime = body_processing_time_ms d\<rparr>,
             rag_error = None\<rparr>)"
  using assms by (simp add: callRagBrain_def blank_iff interpret_response_def Let_def)

text \<open>The example of the specification: the answer \<^verbatim>\<open>"Y"\<close>, no sources, 42 ms.\<close>

theorem callRagBrain_success_witness:
  "snd (callRagBrain (SessionGot (Some \<lparr>access_token = ''token'', session_user = None\<rparr>))
     (\<lambda>req. FetchResponse True 200
        (JsonBody \<lparr>body_success = True, body_answer = ''Y'', body_sources = Some [],
                  body_processing_time_ms = 42, body_error = None\<rparr>))
     (Some (ascii ''What is X?'')) (Some (ascii ''audit'')) no_options)
   = \<lparr>rag_data = Some \<lparr>answer = ''Y'', sources = [], processingTime = 42\<rparr>, rag_error = None\<rparr>"
  using callRagBrain_success [of "ascii ''What is X?''" "ascii ''audit''"
      "\<lambda>req. FetchResponse True 200
        (JsonBody \<lparr>body_success = True, body_answer = ''Y'', body_sources = Some [],
                  body_processing_time_ms = 42, body_error = None\<rparr>)"
      "\<lparr>access_token = ''token'', session_user = None\<rparr>" no_options 200
      "\<lparr>body_success = True, body_answer = ''Y'', body_sources = Some [],
                  body_processing_time_ms = 42, body_error = None\<rparr>"]
  by (simp add: trim_example)

text \<open>
  C8. The three checks of \<^verbatim>\<open>callRagBrain\<close>, in the order of the source. Without a session the
  call returns the error \<open>msg_unauthenticated\<close> (the specification's UNAUTHENTICATED);
  with a session and a query that is absent or empty after trimming it returns
  \<open>msg_empty_query\<close>; with a session, a query that is not blank and a vertical id that is
  absent or empty after trimming it returns \<open>msg_vertical_required\<close> (both the
  specification's VALIDATION_ERROR). In each case no request is sent to the service.
\<close>

theorem callRagBrain_validation:
  "callRagBrain (SessionGot None) service query verticalId options
     = ([], \<lparr>rag_data = None, rag_error = Some msg_unauthenticated\<rparr>)
   \<and> ((\<forall>q. query = Some q \<longrightarrow> trim q = []) \<longrightarrow>
        callRagBrain (SessionGot (Some sess)) service query verticalId options
          = ([], \<lparr>rag_data = None, rag_error = Some msg_empty_query\<rparr>))
   \<and> (\<not> (\<forall>q. query = Some q \<longrightarrow> trim q = []) \<and> (\<forall>v. verticalId = Some v \<longrightarrow> trim v = []) \<longrightarrow>
        callRagBrain (SessionGot (Some sess)) service query verticalId options
          = ([], \<lparr>rag_data = None, rag_error = Some msg_vertical_required\<rparr>))"
  unfolding blank_iff [symmetric] by (simp add: callRagBrain_def rag_failure_def)

text \<open>
  No session; an empty query; a query that is one no-break space, beside a blank vertical id;
  a vertical id of an ideographic space and a byte order mark.
\<close>

theorem callRagBrain_validation_witness:
  "callRagBrain (SessionGot None) (\<lambda>req. FetchRejected ''unreachable'')
        (Some (ascii ''What is X?'')) (Some (ascii ''audit'')) no_options
     = ([], \<lparr>rag_data = None, rag_error = Some msg_unauthenticated\<rparr>)
   \<and> callRagBrain (SessionGot (Some \<lparr>access_token = ''token'', session_user = None\<rparr>))
        (\<lambda>req. FetchRejected ''unreachable'') (Some []) (Some (ascii ''audit'')) no_options
     = ([], \<lparr>rag_data = None, rag_error = Some msg_empty_query\<rparr>)
   \<and> callRagBrain (SessionGot (Some \<lparr>access_token = ''token'', session_user = None\<rparr>))
        (\<lambda>req. FetchRejected ''unreachable'') (Some [0x00A0]) (Some (ascii ''   '')) no_options
     = ([], \<lparr>rag_data = None, rag_error = Some msg_empty_query\<rparr>)
   \<and> callRagBrain (SessionGot (Some \<lparr>access_token = ''token'', session_user = None\<rparr>))
        (\<lambda>req. FetchRejected ''unreachable'') (Some (ascii ''What is X?''))
        (Some [0x3000, 0xFEFF]) no_options
     = ([], \<lparr>rag_data = None, rag_error = Some msg_vertical_required\<rparr>)"
  using
    callRagBrain_validation [of "\<lambda>req. FetchRejected ''unreachable''"
      "Some (ascii ''What is X?'')" "Some (ascii ''audit'')" no_options
      "\<lparr>access_token = ''token'', session_user = None\<rparr>"]
    callRagBrain_validation [of "\<lambda>req. FetchRejected ''unreachable''" "Some []"
      "Some (ascii ''audit'')" no_options "\<lparr>access_token = ''token'', session_user = None\<rparr>"]
    callRagBrain_validation [of "\<lambda>req. FetchRejected ''unreachable''" "Some [0x00A0]"
      "Some (ascii ''   '')" no_options "\<lparr>access_token = ''token'', session_user = None\<rparr>"]
    callRagBrain_validation [of "\<lambda>req. FetchRejected ''unreachable''"
      "Some (ascii ''What is X?'')" "Some [0x3000, 0xFEFF]" no_options
      "\<lparr>access_token = ''token'', session_user = None\<rparr>"]
  by (simp add: trim_example)

text \<open>
  C10. The two tunables are defaulted with \<^verbatim>\<open>||\<close>: the request that is sent carries the
  supplied \<^verbatim>\<open>matchThreshold\<close> only when it is truthy and 0.5 otherwise, the supplied
  \<^verbatim>\<open>matchCount\<close> only when it is truthy and 5 otherwise. A supplied zero is falsy, so it is
  replaced by the default.
\<close>

theorem callRagBrain_defaults:
  assumes "trim q \<noteq> []" and "trim v \<noteq> []"
  shows "\<exists>req. fst (callRagBrain (SessionGot (Some sess)) service (Some q) (Some v) options) = [req]
           \<and> req_match_threshold req
               = (if truthy (matchThreshold options) then matchThreshold options else JNum (1 / 2))
           \<and> req_match_count req
               = (if truthy (matchCount options) then matchCount options else JNum 5)"
  using assms by (simp add: callRagBrain_def blank_iff requestBody_def js_or_def Let_def)

text \<open>Both tunables supplied as zero: the request carries 0.5 and 5.\<close>

theorem callRagBrain_defaults_witness:
  "\<exists>req. fst (callRagBrain (SessionGot (Some \<lparr>access_token = ''token'', session_user = None\<rparr>))
                (\<lambda>req. FetchRejected ''offline'') (Some (ascii ''What is X?''))
                (Some (ascii ''audit''))
                \<lparr>matchThreshold = JNum 0, matchCount = JNum 0\<rparr>) = [req]
         \<and> req_match_threshold req = JNum (1 / 2) \<and> req_match_count req = JNum 5"
  using callRagBrain_defaults [of "ascii ''What is X?''" "ascii ''audit''"
      "\<lparr>access_token = ''token'', session_user = None\<rparr>" "\<lambda>req. FetchRejected ''offline''"
      "\<lparr>matchThreshold = JNum 0, matchCount = JNum 0\<rparr>"]
  by (simp add: trim_example)

section \<open>The signup flag and the signups in flight\<close>

text \<open>Taking a task out of the pending list removes exactly that task.\<close>

lemma take_task_filter:
  assumes "take_task i ts = Some (t, rest)"
  shows "length (filter P ts) = length (filter P rest) + (if P t then 1 else 0)"
proof -
  from assms have i: "i < length ts" and t: "t = ts ! i"
    and rest: "rest = take i ts @ drop (Suc i) ts"
    by (auto simp: take_task_def split: if_splits)
  from i have "ts = take i ts @ ts ! i # drop (Suc i) ts"
    by (rule id_take_nth_drop)
  then have "filter P ts = filter P (take i ts) @ filter P [ts ! i] @ filter P (drop (Suc i) ts)"
    by (metis append_Cons append_Nil filter_append)
  then show ?thesis
    using t rest by simp
qed

lemma load_keeps_signingUpRef:
  "signingUpRef (snd (loadUserProfile userId s)) = signingUpRef s"
  "signingUpRef (snd (loadUserProfile_profile r s)) = signingUpRef s"
  "signingUpRef (snd (loadUserProfile_organization r' s)) = signingUpRef s"
  "signingUpRef (after_load c s) = signingUpRef s"
  by (auto simp: loadUserProfile_def loadUserProfile_profile_def loadUserProfile_organization_def
        load_finally_def load_catch_def after_load_def Let_def
      split: store_reply.splits option.splits caller.splits)

lemma continue_caller_signup:
  "signingUpRef (snd (continue_caller c r)) = signingUpRef (snd r)"
  "filter signup_task (fst (continue_caller c r)) = []"
  by (auto simp: continue_caller_def load_keeps_signingUpRef split: load_phase.splits)

lemma handlers_signup:
  "signingUpRef (snd (initSession_probed p s)) = signingUpRef s"
  "filter signup_task (fst (initSession_probed p s)) = []"
  "signingUpRef (snd (onAuthStateChange ev ns s)) = signingUpRef s"
  "filter signup_task (fst (onAuthStateChange ev ns s)) = []"
  "signingUpRef (snd (timer_callback userId s)) = signingUpRef s"
  "filter signup_task (fst (timer_callback userId s)) = []"
  "signingUpRef (snd (refreshProfile s)) = signingUpRef s"
  "filter signup_task (fst (refreshProfile s)) = []"
  by (auto simp: initSession_probed_def onAuthStateChange_def timer_callback_def
        refreshProfile_def continue_caller_signup load_keeps_signingUpRef Let_def
      split: session_probe.splits option.splits)

lemma resume_inv:
  assumes "signingUpRef (snd r) = signingUpRef (state sys)"
    and "filter signup_task (fst r) = []"
    and "length (filter signup_task rest) = signups_in_flight sys"
  shows "signup_guard_inv (resume rest r sys) = signup_guard_inv sys"
  using assms by (simp add: signup_guard_inv_def signups_in_flight_def resume_def)

lemma step_signup_guard_inv:
  assumes "signup_guard_inv sys"
  shows "signup_guard_inv (step e sys)"
proof (cases e)
  case (SessionProbed i r)
  show ?thesis
  proof (cases "take_task i (pending sys)")
    case None
    with SessionProbed assms show ?thesis by (simp add: step_def)
  next
    case (Some a)
    obtain t rest where a: "a = (t, rest)" by (cases a)
    show ?thesis
    proof (cases t)
      case SessionProbe
      from Some a SessionProbe have "length (filter signup_task rest) = signups_in_flight sys"
        using take_task_filter [of i "pending sys" t rest signup_task]
        by (simp add: signups_in_flight_def)
      with assms SessionProbed Some a SessionProbe show ?thesis
        by (simp add: step_def resume_inv handlers_signup)
    qed (use assms SessionProbed Some a in \<open>simp_all add: step_def\<close>)
  qed
next
  case (AuthEvent ev ns)
  with assms show ?thesis
    by (simp add: step_def resume_inv handlers_signup signups_in_flight_def)
next
  case (TimerFired i)
  show ?thesis
  proof (cases "take_task i (pending sys)")
    case None
    with TimerFired assms show ?thesis by (simp add: step_def)
  next
    case (Some a)
    obtain t rest where a: "a = (t, rest)" by (cases a)
    show ?thesis
    proof (cases t)
      case (Timer userId)
      from Some a Timer have "length (filter signup_task rest) = signups_in_flight sys"
        using take_task_filter [of i "pending sys" t rest signup_task]
        by (simp add: signups_in_flight_def)
      with assms TimerFired Some a Timer show ?thesis
        by (simp add: step_def resume_inv handlers_signup)
    qed (use assms TimerFired Some a in \<open>simp_all add: step_def\<close>)
  qed
next
  case (ProfileReplied i r)
  show ?thesis
  proof (cases "take_task i (pending sys)")
    case None
    with ProfileReplied assms show ?thesis by (simp add: step_def)
  next
    case (Some a)
    obtain t rest where a: "a = (t, rest)" by (cases a)
    show ?thesis
    proof (cases t)
      case (ProfileFetch c)
      from Some a ProfileFetch have "length (filter signup_task rest) = signups_in_flight sys"
        using take_task_filter [of i "pending sys" t rest signup_task]
        by (simp add: signups_in_flight_def)
      with assms ProfileReplied Some a ProfileFetch show ?thesis
        by (simp add: step_def resume_inv continue_caller_signup load_keeps_signingUpRef)
    qed (use assms ProfileReplied Some a in \<open>simp_all add: step_def\<close>)
  qed
next
  case (OrganizationReplied i r)
  show ?thesis
  proof (cases "take_task i (pending sys)")
    case None
    with OrganizationReplied assms show ?thesis by (simp add: step_def)
  next
    case (Some a)
    obtain t rest where a: "a = (t, rest)" by (cases a)
    show ?thesis
    proof (cases t)
      case (OrganizationFetch c)
      from Some a OrganizationFetch have "length (filter signup_task rest) = signups_in_flight sys"
        using take_task_filter [of i "pending sys" t rest signup_task]
        by (simp add: signups_in_flight_def)
      with assms OrganizationReplied Some a OrganizationFetch show ?thesis
        by (simp add: step_def resume_inv continue_caller_signup load_keeps_signingUpRef)
    qed (use assms OrganizationReplied Some a in \<open>simp_all add: step_def\<close>)
  qed
next
  case RefreshProfileCalled
  with assms show ?thesis
    by (simp add: step_def resume_inv handlers_signup signups_in_flight_def)
next
  case (SignUpCalled helper email password md)
  with assms show ?thesis
    by (simp add: step_def resume_signUp_def signUp_def signup_guard_inv_def
        signups_in_flight_def Let_def split: if_splits)
next
  case (EmailChecked i outcome)
  show ?thesis
  proof (cases "take_task i (pending sys)")
    case None
    with EmailChecked assms show ?thesis by (simp add: step_def)
  next
    case (Some a)
    obtain t rest where a: "a = (t, rest)" by (cases a)
    show ?thesis
    proof (cases t)
      case (EmailCheck email password md)
      from Some a EmailCheck have "signups_in_flight sys = length (filter signup_task rest) + 1"
        using take_task_filter [of i "pending sys" t rest signup_task]
        by (simp add: signups_in_flight_def)
      with assms EmailChecked Some a EmailCheck show ?thesis
        by (simp add: step_def resume_signUp_def signUp_checked_def signUp_finally_def
            signup_guard_inv_def signups_in_flight_def split: if_splits)
    qed (use assms EmailChecked Some a in \<open>simp_all add: step_def\<close>)
  qed
next
  case (AuthSignUpReplied i r)
  show ?thesis
  proof (cases "take_task i (pending sys)")
    case None
    with AuthSignUpReplied assms show ?thesis by (simp add: step_def)
  next
    case (Some a)
    obtain t rest where a: "a = (t, rest)" by (cases a)
    show ?thesis
    proof (cases t)
      case AuthSignUpCall
      from Some a AuthSignUpCall have "signups_in_flight sys = length (filter signup_task rest) + 1"
        using take_task_filter [of i "pending sys" t rest signup_task]
        by (simp add: signups_in_flight_def)
      with assms AuthSignUpReplied Some a AuthSignUpCall show ?thesis
        by (auto simp: step_def signUp_replied_def signUp_finally_def Let_def
            signup_guard_inv_def signups_in_flight_def
            split: if_splits auth_reply.splits option.splits)
    qed (use assms AuthSignUpReplied Some a in \<open>simp_all add: step_def\<close>)
  qed
next
  case Unmounted
  with assms show ?thesis
    by (simp add: step_def signup_guard_inv_def signups_in_flight_def)
qed

lemma run_signup_guard_inv: "signup_guard_inv sys \<Longrightarrow> signup_guard_inv (run es sys)"
  by (induction es arbitrary: sys) (simp_all add: step_signup_guard_inv)

lemma initial_signup_guard_inv: "signup_guard_inv initial_system"
  by (simp add: signup_guard_inv_def signups_in_flight_def initial_system_def initial_state_def)

section \<open>Properties of \<^verbatim>\<open>signUp\<close>\<close>

lemma errorStatus_number:
  "errorStatus e = StatusNumber n \<longleftrightarrow> ae_status e = Some n \<and> n \<noteq> 0"
  by (auto simp: errorStatus_def Let_def split: option.splits)

lemma isEmailExists_spec:
  "isEmailExists e \<longleftrightarrow>
     ae_status e = Some 422 \<or> ae_status e = Some 400
     \<or> (\<exists>w \<in> set [''already'', ''exists'', ''registered'', ''duplicate''].
           includes_str (toLowerCase (ae_message e)) w)
     \<or> ae_message e \<in> set [''User already registered'', ''Email already registered'',
                             ''A user with this email already exists'']"
  by (auto simp: isEmailExists_def Let_def errorStatus_number)

text \<open>
  C6. When the provider's create-account call returns an error, \<^verbatim>\<open>signUp\<close> returns no data and
  the error classified as the specification says: EMAIL_EXISTS for a status of 422 or 400,
  else EMAIL_EXISTS when the lower-cased message contains "already", "exists", "registered" or
  "duplicate", else EMAIL_EXISTS for one of the three known phrasings, else the provider's
  error unchanged. A status of 422 gives EMAIL_EXISTS whatever the message.
\<close>

theorem signUp_classification:
  "signUp_replied (AuthReply d (Some e)) s
     = (\<lparr>result_data = None, result_error = Some (spec_classification e)\<rparr>, signUp_finally s)
   \<and> (ae_status e = Some 422 \<longrightarrow>
        fst (signUp_replied (AuthReply d (Some e)) s)
          = \<lparr>result_data = None,
             result_error = Some (ErrorObject msg_email_exists (Some ''EMAIL_EXISTS'') (Some e))\<rparr>)"
  unfolding signUp_replied_def spec_classification_def isEmailExists_spec
  by simp

lemma includes_example:
  "includes_str (toLowerCase ''Email ALREADY in use'') ''already''"
  "\<not> includes_str (toLowerCase ''Password should be at least 6 characters'') ''already''"
  "\<not> includes_str (toLowerCase ''Password should be at least 6 characters'') ''exists''"
  "\<not> includes_str (toLowerCase ''Password should be at least 6 characters'') ''registered''"
  "\<not> includes_str (toLowerCase ''Password should be at least 6 characters'') ''duplicate''"
  "\<not> includes_str (toLowerCase ''weird'') ''already''"
  "\<not> includes_str (toLowerCase ''weird'') ''exists''"
  "\<not> includes_str (toLowerCase ''weird'') ''registered''"
  "\<not> includes_str (toLowerCase ''weird'') ''duplicate''"
  by code_simp+

text \<open>
  A status of 422 with an unrelated message, a message matched without regard to case, and an
  error that passes through.
\<close>

theorem signUp_classification_witness:
  "fst (signUp_replied (AuthReply \<lparr>new_user = None, new_session = None\<rparr>
          (Some \<lparr>ae_message = ''weird'', ae_status = Some 422, ae_code = None\<rparr>)) initial_state)
     = \<lparr>result_data = None,
        result_error = Some (ErrorObject msg_email_exists (Some ''EMAIL_EXISTS'')
          (Some \<lparr>ae_message = ''weird'', ae_status = Some 422, ae_code = None\<rparr>))\<rparr>
   \<and> fst (signUp_replied (AuthReply \<lparr>new_user = None, new_session = None\<rparr>
          (Some \<lparr>ae_message = ''Email ALREADY in use'', ae_status = Some 500, ae_code = None\<rparr>)) initial_state)
     = \<lparr>result_data = None,
        result_error = Some (ErrorObject msg_email_exists (Some ''EMAIL_EXISTS'')
          (Some \<lparr>ae_message = ''Email ALREADY in use'', ae_status = Some 500, ae_code = None\<rparr>))\<rparr>
   \<and> fst (signUp_replied (AuthReply \<lparr>new_user = None, new_session = None\<rparr>
          (Some \<lparr>ae_message = ''Password should be at least 6 characters'', ae_status = Some 500,
                 ae_code = Some ''weak_password''\<rparr>)) initial_state)
     = \<lparr>result_data = None,
        result_error = Some (ProviderError
          \<lparr>ae_message = ''Password should be at least 6 characters'', ae_status = Some 500,
                 ae_code = Some ''weak_password''\<rparr>)\<rparr>"
  using
    signUp_classification [of "\<lparr>new_user = None, new_session = None\<rparr>"
      "\<lparr>ae_message = ''weird'', ae_status = Some 422, ae_code = None\<rparr>" initial_state]
    signUp_classification [of "\<lparr>new_user = None, new_session = None\<rparr>"
      "\<lparr>ae_message = ''Email ALREADY in use'', ae_status = Some 500, ae_code = None\<rparr>" initial_state]
    signUp_classification [of "\<lparr>new_user = None, new_session = None\<rparr>"
      "\<lparr>ae_message = ''Password should be at least 6 characters'', ae_status = Some 500,
                 ae_code = Some ''weak_password''\<rparr>" initial_state]
  by (simp add: spec_classification_def includes_example)

text \<open>
  C7. When the pre-check reports \<^verbatim>\<open>true\<close>, \<^verbatim>\<open>signUp\<close> returns the EMAIL_EXISTS error and issues
  no call (the trace of calls is unchanged, so the provider's create-account operation is not
  called). When the pre-check throws (or reports anything but \<^verbatim>\<open>true\<close>), \<^verbatim>\<open>signUp\<close> goes on to
  the create-account call; when the helper is absent, \<^verbatim>\<open>signUp\<close> issues the create-account call
  at once; when it is present, the pre-check is what \<^verbatim>\<open>signUp\<close> calls first.
\<close>

theorem signUp_precheck:
  "signUp_checked (CheckResult True) email password md s
     = (SignUpReturned
          \<lparr>result_data = None,
           result_error = Some (ErrorObject msg_email_exists (Some ''EMAIL_EXISTS'') None)\<rparr>,
        s\<lparr>error := Some msg_email_exists, signingUpRef := False, loading := False\<rparr>)
   \<and> calls (snd (signUp_checked (CheckResult True) email password md s)) = calls s
   \<and> (outcome \<noteq> CheckResult True \<longrightarrow>
        signUp_checked outcome email password md s
          = (AwaitAuthSignUp, s\<lparr>calls := calls s @ [AuthSignUp email password md]\<rparr>))
   \<and> (\<not> signingUpRef s \<longrightarrow>
        signUp False email password md s
          = (AwaitAuthSignUp,
             s\<lparr>signingUpRef := True, loading := True,
               calls := calls s @ [AuthSignUp email password md]\<rparr>))
   \<and> (\<not> signingUpRef s \<longrightarrow>
        signUp True email password md s
          = (AwaitEmailCheck,
             s\<lparr>signingUpRef := True, loading := True,
               calls := calls s @ [CheckEmailExists email]\<rparr>))"
  by (simp add: signUp_checked_def signUp_def signUp_finally_def Let_def)


text \<open>
  The example of the specification: the remote procedure reports that
  \<^verbatim>\<open>taken@example.com\<close> exists.
\<close>

theorem signUp_precheck_witness:
  "fst (signUp_checked
          (CheckResult (checkEmailExists ''taken@example.com'' (RpcReply (JBool True) None)))
          ''taken@example.com'' ''x'' []
          (snd (signUp True ''taken@example.com'' ''x'' [] initial_state)))
     = SignUpReturned
         \<lparr>result_data = None,
          result_error = Some (ErrorObject msg_email_exists (Some ''EMAIL_EXISTS'') None)\<rparr>
   \<and> calls (snd (signUp_checked
          (CheckResult (checkEmailExists ''taken@example.com'' (RpcReply (JBool True) None)))
          ''taken@example.com'' ''x'' []
          (snd (signUp True ''taken@example.com'' ''x'' [] initial_state))))
     = [CheckEmailExists ''taken@example.com'']
   \<and> fst (signUp_checked CheckThrew ''new@example.com'' ''x'' []
          (snd (signUp True ''new@example.com'' ''x'' [] initial_state))) = AwaitAuthSignUp
   \<and> calls (snd (signUp_checked CheckThrew ''new@example.com'' ''x'' []
          (snd (signUp True ''new@example.com'' ''x'' [] initial_state))))
     = [CheckEmailExists ''new@example.com'', AuthSignUp ''new@example.com'' ''x'' []]
   \<and> signUp False ''new@example.com'' ''x'' [] initial_state
     = (AwaitAuthSignUp,
        initial_state\<lparr>signingUpRef := True, loading := True,
          calls := [AuthSignUp ''new@example.com'' ''x'' []]\<rparr>)"
  using
    signUp_precheck [of "''taken@example.com''" "''x''" "[]"
      "snd (signUp True ''taken@example.com'' ''x'' [] initial_state)" CheckThrew]
    signUp_precheck [of "''new@example.com''" "''x''" "[]"
      "snd (signUp True ''new@example.com'' ''x'' [] initial_state)" CheckThrew]
    signUp_precheck [of "''new@example.com''" "''x''" "[]" initial_state CheckThrew]
  by (simp add: checkEmailExists_def signUp_def initial_state_def Let_def)

text \<open>
  C5. A call of \<^verbatim>\<open>signUp\<close> while \<^verbatim>\<open>signingUpRef\<close> is set returns the error
  \<open>msg_signup_in_progress\<close> (the specification's SIGNUP_IN_PROGRESS) and leaves the state as it is, the
  trace of calls included: neither the pre-check nor the create-account operation is called.
  Every return of \<^verbatim>\<open>signUp\<close> after it has set the flag clears it: the return after the
  pre-check, and each return after the provider's reply (success, classified error, passed
  error, exception). In every state the event loop can reach, at most one signup is in flight,
  and a call of \<^verbatim>\<open>signUp\<close> while one is in flight only adds the error to the returned results.
\<close>

theorem signUp_guard:
  "(signingUpRef s \<longrightarrow>
      signUp helper email password md s
        = (SignUpReturned
             \<lparr>result_data = None,
              result_error = Some (ErrorObject msg_signup_in_progress None None)\<rparr>, s))
   \<and> (fst (signUp_checked outcome email password md s) \<noteq> AwaitAuthSignUp \<longrightarrow>
        \<not> signingUpRef (snd (signUp_checked outcome email password md s)))
   \<and> \<not> signingUpRef (snd (signUp_replied r s))
   \<and> signups_in_flight (run es initial_system) \<le> 1
   \<and> (0 < signups_in_flight (run es initial_system) \<longrightarrow>
        step (SignUpCalled helper email password md) (run es initial_system)
          = (run es initial_system)
              \<lparr>returned := returned (run es initial_system)
                 @ [\<lparr>result_data = None,
                     result_error = Some (ErrorObject msg_signup_in_progress None None)\<rparr>]\<rparr>)"
proof -
  have inv: "signup_guard_inv (run es initial_system)"
    by (rule run_signup_guard_inv) (rule initial_signup_guard_inv)
  have entry: "signingUpRef s \<longrightarrow>
      signUp helper email password md s
        = (SignUpReturned
             \<lparr>result_data = None,
              result_error = Some (ErrorObject msg_signup_in_progress None None)\<rparr>, s)" for s
    by (simp add: signUp_def)
  have checked: "fst (signUp_checked outcome email password md s) \<noteq> AwaitAuthSignUp \<longrightarrow>
        \<not> signingUpRef (snd (signUp_checked outcome email password md s))"
    by (simp add: signUp_checked_def signUp_finally_def)
  have replied: "\<not> signingUpRef (snd (signUp_replied r s))"
    by (simp add: signUp_replied_def signUp_finally_def Let_def
        split: auth_reply.splits option.splits)
  have le: "signups_in_flight (run es initial_system) \<le> 1"
    using inv by (simp add: signup_guard_inv_def split: if_splits)
  have busy: "step (SignUpCalled helper email password md) (run es initial_system)
          = (run es initial_system)
              \<lparr>returned := returned (run es initial_system)
                 @ [\<lparr>result_data = None,
                     result_error = Some (ErrorObject msg_signup_in_progress None None)\<rparr>]\<rparr>"
    if "0 < signups_in_flight (run es initial_system)"
  proof -
    from that inv have "signingUpRef (state (run es initial_system))"
      by (simp add: signup_guard_inv_def split: if_splits)
    with entry [of "state (run es initial_system)"] show ?thesis
      by (simp add: step_def resume_signUp_def)
  qed
  from entry checked replied le busy show ?thesis by blast
qed

lemma run_one_signup:
  "run [SessionProbed 0 (SessionGot None), SignUpCalled True ''a@example.com'' ''x'' []]
     initial_system
   = \<lparr>state = initial_state\<lparr>loading := True, signingUpRef := True,
                 calls := [CheckEmailExists ''a@example.com'']\<rparr>,
      pending = [EmailCheck ''a@example.com'' ''x'' []], returned = []\<rparr>"
  by (simp add: step_def take_task_def resume_def resume_signUp_def initSession_probed_def
      signUp_def user_of_def initial_system_def initial_state_def Let_def)

text \<open>
  Two calls in a row with the same arguments: the second returns the error, and the only call
  issued is the pre-check of the first.
\<close>

theorem signUp_guard_witness:
  "step (SignUpCalled True ''a@example.com'' ''x'' [])
     (run [SessionProbed 0 (SessionGot None), SignUpCalled True ''a@example.com'' ''x'' []]
        initial_system)
   = \<lparr>state = initial_state\<lparr>loading := True, signingUpRef := True,
                 calls := [CheckEmailExists ''a@example.com'']\<rparr>,
      pending = [EmailCheck ''a@example.com'' ''x'' []],
      returned = [\<lparr>result_data = None,
                   result_error = Some (ErrorObject msg_signup_in_progress None None)\<rparr>]\<rparr>"
  using signUp_guard [of initial_state True "''a@example.com''" "''x''" "[]" CheckThrew
      "AuthRejected []"
      "[SessionProbed 0 (SessionGot None), SignUpCalled True ''a@example.com'' ''x'' []]"]
  unfolding run_one_signup by (simp add: signups_in_flight_def)

section \<open>Properties of \<^verbatim>\<open>loadUserProfile\<close> and the session events\<close>

text \<open>
  A trace: no initial session, a sign-in, the timer fires and the load starts, then the
  sign-out arrives while the profile fetch is pending.
\<close>

lemma run_signed_out_in_flight:
  "run [SessionProbed 0 (SessionGot None), AuthEvent ''SIGNED_IN'' (Some alice_session),
        TimerFired 0, AuthEvent ''SIGNED_OUT'' None] initial_system
   = \<lparr>state = initial_state\<lparr>loading := False, calls := [FetchProfile ''u1'']\<rparr>,
      pending = [ProfileFetch SignedInTimer], returned = []\<rparr>"
  by (simp add: step_def take_task_def resume_def initSession_probed_def onAuthStateChange_def
      timer_callback_def continue_caller_def loadUserProfile_def user_of_def
      initial_system_def initial_state_def alice_session_def alice_def Let_def)

text \<open>
  C1, as stated, fails. After the trace above the profile is absent and the fetch is still
  pending; when the store then replies with the profile, \<^verbatim>\<open>loadUserProfile\<close> stores it: the
  state has no session and a profile.
\<close>

theorem signed_out_late_profile_counterexample:
  "profile (state (run [SessionProbed 0 (SessionGot None),
                        AuthEvent ''SIGNED_IN'' (Some alice_session), TimerFired 0,
                        AuthEvent ''SIGNED_OUT'' None] initial_system)) = None
   \<and> pending (run [SessionProbed 0 (SessionGot None),
                   AuthEvent ''SIGNED_IN'' (Some alice_session), TimerFired 0,
                   AuthEvent ''SIGNED_OUT'' None] initial_system) = [ProfileFetch SignedInTimer]
   \<and> session (state (step (ProfileReplied 0 (StoreReply (Some alice_profile) None))
                  (run [SessionProbed 0 (SessionGot None),
                        AuthEvent ''SIGNED_IN'' (Some alice_session), TimerFired 0,
                        AuthEvent ''SIGNED_OUT'' None] initial_system))) = None
   \<and> profile (state (step (ProfileReplied 0 (StoreReply (Some alice_profile) None))
                  (run [SessionProbed 0 (SessionGot None),
                        AuthEvent ''SIGNED_IN'' (Some alice_session), TimerFired 0,
                        AuthEvent ''SIGNED_OUT'' None] initial_system))) = Some alice_profile"
  unfolding run_signed_out_in_flight
  by (simp add: step_def take_task_def resume_def continue_caller_def
      loadUserProfile_profile_def org_reference_def alice_profile_def initial_state_def Let_def)

text \<open>
  C1, amended. While the provider is mounted, the handler run for SIGNED_OUT with a null session
  leaves user, session, profile and organization absent and \<^verbatim>\<open>loading\<close> false, in that one step,
  whatever is pending; the pending tasks stay pending. A profile fetch that was in flight and
  replies next leaves the profile absent when the reply is not-found, an error, a
  rejection or empty, and stores the profile when the reply carries one; the organization stays
  absent in that step. An organization fetch that was in flight stores the organization its
  reply carries, if any, and leaves the profile absent.
\<close>

theorem signed_out_snapshot:
  assumes "mounted (state sys)"
  shows "user (state (step (AuthEvent ''SIGNED_OUT'' None) sys)) = None
       \<and> session (state (step (AuthEvent ''SIGNED_OUT'' None) sys)) = None
       \<and> profile (state (step (AuthEvent ''SIGNED_OUT'' None) sys)) = None
       \<and> organization (state (step (AuthEvent ''SIGNED_OUT'' None) sys)) = None
       \<and> \<not> loading (state (step (AuthEvent ''SIGNED_OUT'' None) sys))
       \<and> pending (step (AuthEvent ''SIGNED_OUT'' None) sys) = pending sys
       \<and> (take_task i (pending sys) = Some (ProfileFetch c, rest) \<longrightarrow>
            profile (state (step (ProfileReplied i r) (step (AuthEvent ''SIGNED_OUT'' None) sys)))
              = (case r of StoreReply (Some p) None \<Rightarrow> Some p | _ \<Rightarrow> None)
            \<and> organization
                (state (step (ProfileReplied i r) (step (AuthEvent ''SIGNED_OUT'' None) sys)))
              = None)
       \<and> (take_task i (pending sys) = Some (OrganizationFetch c, rest) \<longrightarrow>
            profile
                (state (step (OrganizationReplied i r') (step (AuthEvent ''SIGNED_OUT'' None) sys)))
              = None
            \<and> organization
                (state (step (OrganizationReplied i r') (step (AuthEvent ''SIGNED_OUT'' None) sys)))
              = (case r' of StoreReply (Some org) None \<Rightarrow> Some org | _ \<Rightarrow> None))"
proof -
  let ?out = "step (AuthEvent ''SIGNED_OUT'' None) sys"
  have out: "?out = sys\<lparr>state := (state sys)\<lparr>session := None, user := None, profile := None,
      organization := None, profileLoadedRef := False, loadingProfileRef := False,
      loading := False\<rparr>\<rparr>"
    using assms by (simp add: step_def resume_def onAuthStateChange_def user_of_def Let_def)
  have fields: "user (state ?out) = None" "session (state ?out) = None"
    "profile (state ?out) = None" "organization (state ?out) = None" "\<not> loading (state ?out)"
    "pending ?out = pending sys"
    unfolding out by simp_all
  have late_profile:
    "profile (state (step (ProfileReplied i r) ?out))
       = (case r of StoreReply (Some p) None \<Rightarrow> Some p | _ \<Rightarrow> None)
     \<and> organization (state (step (ProfileReplied i r) ?out)) = None"
    if "take_task i (pending sys) = Some (ProfileFetch c, rest)"
    unfolding out using that
    by (cases c)
       (auto simp: step_def resume_def continue_caller_def loadUserProfile_profile_def
          load_finally_def load_catch_def after_load_def Let_def
        split: store_reply.splits option.splits)
  have late_org:
    "profile (state (step (OrganizationReplied i r') ?out)) = None
     \<and> organization (state (step (OrganizationReplied i r') ?out))
       = (case r' of StoreReply (Some org) None \<Rightarrow> Some org | _ \<Rightarrow> None)"
    if "take_task i (pending sys) = Some (OrganizationFetch c, rest)"
    unfolding out using that
    by (cases c)
       (auto simp: step_def resume_def continue_caller_def loadUserProfile_organization_def
          load_finally_def load_catch_def after_load_def Let_def
        split: store_reply.splits option.splits)
  from fields late_profile late_org show ?thesis by blast
qed


lemma run_load_in_flight:
  "run [SessionProbed 0 (SessionGot None), AuthEvent ''SIGNED_IN'' (Some alice_session),
        TimerFired 0] initial_system
   = \<lparr>state = initial_state\<lparr>session := Some alice_session, user := Some alice,
                 loading := False, loadingProfileRef := True, calls := [FetchProfile ''u1'']\<rparr>,
      pending = [ProfileFetch SignedInTimer], returned = []\<rparr>"
  by (simp add: step_def take_task_def resume_def initSession_probed_def onAuthStateChange_def
      timer_callback_def continue_caller_def loadUserProfile_def user_of_def
      initial_system_def initial_state_def alice_session_def alice_def Let_def)

theorem signed_out_snapshot_witness:
  "mounted (state (run [SessionProbed 0 (SessionGot None),
                        AuthEvent ''SIGNED_IN'' (Some alice_session), TimerFired 0]
                     initial_system))
   \<and> take_task 0 (pending (run [SessionProbed 0 (SessionGot None),
                                AuthEvent ''SIGNED_IN'' (Some alice_session), TimerFired 0]
                             initial_system)) = Some (ProfileFetch SignedInTimer, [])
   \<and> user (state (step (AuthEvent ''SIGNED_OUT'' None)
        (run [SessionProbed 0 (SessionGot None),
              AuthEvent ''SIGNED_IN'' (Some alice_session), TimerFired 0] initial_system))) = None
   \<and> profile (state (step (AuthEvent ''SIGNED_OUT'' None)
        (run [SessionProbed 0 (SessionGot None),
              AuthEvent ''SIGNED_IN'' (Some alice_session), TimerFired 0] initial_system))) = None
   \<and> profile (state
        (step (ProfileReplied 0
                 (StoreReply None (Some \<lparr>pg_code = ''PGRST116'', pg_message = ''no rows''\<rparr>)))
           (step (AuthEvent ''SIGNED_OUT'' None)
              (run [SessionProbed 0 (SessionGot None),
                    AuthEvent ''SIGNED_IN'' (Some alice_session), TimerFired 0]
                 initial_system)))) = None"
  using signed_out_snapshot [of
      "run [SessionProbed 0 (SessionGot None), AuthEvent ''SIGNED_IN'' (Some alice_session),
            TimerFired 0] initial_system"
      0 SignedInTimer "[]"
      "StoreReply None (Some \<lparr>pg_code = ''PGRST116'', pg_message = ''no rows''\<rparr>)"
      "StoreReply None None"]
  unfolding run_load_in_flight
  by (simp add: take_task_def initial_state_def)

text \<open>
  A trace: the initial session is found, the profile refers to the organization \<^verbatim>\<open>o1\<close>, the
  organization is fetched.
\<close>

lemma run_loaded:
  "run [SessionProbed 0 (SessionGot (Some alice_session)),
        ProfileReplied 0 (StoreReply (Some alice_profile) None),
        OrganizationReplied 0 (StoreReply (Some acme) None)] initial_system
   = \<lparr>state = initial_state\<lparr>session := Some alice_session, user := Some alice,
                 profile := Some alice_profile, organization := Some acme, loading := False,
                 profileLoadedRef := True,
                 calls := [FetchProfile ''u1'', FetchOrganization ''o1'']\<rparr>,
      pending = [], returned = []\<rparr>"
  by (simp add: step_def take_task_def resume_def initSession_probed_def continue_caller_def
      loadUserProfile_def loadUserProfile_profile_def loadUserProfile_organization_def
      load_finally_def after_load_def org_reference_def user_of_def
      initial_system_def initial_state_def alice_session_def alice_def alice_profile_def Let_def)

text \<open>
  C2 does not hold of the code. After the trace above, \<^verbatim>\<open>refreshProfile\<close> with a reply whose
  profile has no organization reference leaves the organization \<^verbatim>\<open>o1\<close> in the state, beside a
  profile that refers to none; and \<^verbatim>\<open>refreshProfile\<close> with a profile that refers to \<^verbatim>\<open>o2\<close>,
  whose organization fetch fails, leaves the organization \<^verbatim>\<open>o1\<close> beside that profile.
\<close>

theorem stale_organization_after_refresh:
  "profile (state (run [RefreshProfileCalled,
                        ProfileReplied 0 (StoreReply (Some (alice_profile\<lparr>org_id := None\<rparr>)) None)]
      (run [SessionProbed 0 (SessionGot (Some alice_session)),
            ProfileReplied 0 (StoreReply (Some alice_profile) None),
            OrganizationReplied 0 (StoreReply (Some acme) None)] initial_system)))
     = Some (alice_profile\<lparr>org_id := None\<rparr>)
   \<and> organization (state (run [RefreshProfileCalled,
                        ProfileReplied 0 (StoreReply (Some (alice_profile\<lparr>org_id := None\<rparr>)) None)]
      (run [SessionProbed 0 (SessionGot (Some alice_session)),
            ProfileReplied 0 (StoreReply (Some alice_profile) None),
            OrganizationReplied 0 (StoreReply (Some acme) None)] initial_system)))
     = Some acme
   \<and> pending (run [RefreshProfileCalled,
                        ProfileReplied 0 (StoreReply (Some (alice_profile\<lparr>org_id := None\<rparr>)) None)]
      (run [SessionProbed 0 (SessionGot (Some alice_session)),
            ProfileReplied 0 (StoreReply (Some alice_profile) None),
            OrganizationReplied 0 (StoreReply (Some acme) None)] initial_system)) = []
   \<and> profile (state (run [RefreshProfileCalled,
                        ProfileReplied 0
                          (StoreReply (Some (alice_profile\<lparr>org_id := Some ''o2''\<rparr>)) None),
                        OrganizationReplied 0
                          (StoreReply None (Some \<lparr>pg_code = ''500'', pg_message = ''down''\<rparr>))]
      (run [SessionProbed 0 (SessionGot (Some alice_session)),
            ProfileReplied 0 (StoreReply (Some alice_profile) None),
            OrganizationReplied 0 (StoreReply (Some acme) None)] initial_system)))
     = Some (alice_profile\<lparr>org_id := Some ''o2''\<rparr>)
   \<and> organization (state (run [RefreshProfileCalled,
                        ProfileReplied 0
                          (StoreReply (Some (alice_profile\<lparr>org_id := Some ''o2''\<rparr>)) None),
                        OrganizationReplied 0
                          (StoreReply None (Some \<lparr>pg_code = ''500'', pg_message = ''down''\<rparr>))]
      (run [SessionProbed 0 (SessionGot (Some alice_session)),
            ProfileReplied 0 (StoreReply (Some alice_profile) None),
            OrganizationReplied 0 (StoreReply (Some acme) None)] initial_system)))
     = Some acme
   \<and> organization_id acme = ''o1''"
  unfolding run_loaded
  by (simp add: step_def take_task_def resume_def refreshProfile_def continue_caller_def
      loadUserProfile_def loadUserProfile_profile_def loadUserProfile_organization_def
      load_finally_def after_load_def org_reference_def
      initial_state_def alice_def alice_profile_def acme_def Let_def)

text \<open>
  C9. When the reply of a pending profile fetch carries an error with the code PGRST116, the
  load sets profile and organization to absent, leaves the \<^verbatim>\<open>error\<close> cell as it was, issues no
  further call, marks the profile as loaded, releases the guard and returns: the task is gone
  and nothing new is pending.
\<close>

theorem loadUserProfile_not_found:
  assumes "take_task i (pending sys) = Some (ProfileFetch c, rest)"
    and "pg_code e = ''PGRST116''"
  shows "profile (state (step (ProfileReplied i (StoreReply d (Some e))) sys)) = None
       \<and> organization (state (step (ProfileReplied i (StoreReply d (Some e))) sys)) = None
       \<and> error (state (step (ProfileReplied i (StoreReply d (Some e))) sys)) = error (state sys)
       \<and> calls (state (step (ProfileReplied i (StoreReply d (Some e))) sys)) = calls (state sys)
       \<and> \<not> loadingProfileRef (state (step (ProfileReplied i (StoreReply d (Some e))) sys))
       \<and> profileLoadedRef (state (step (ProfileReplied i (StoreReply d (Some e))) sys))
       \<and> pending (step (ProfileReplied i (StoreReply d (Some e))) sys) = rest"
  using assms
  by (cases c)
     (simp_all add: step_def resume_def continue_caller_def loadUserProfile_profile_def
        load_finally_def after_load_def)

theorem loadUserProfile_not_found_witness:
  "take_task 0 (pending (run [SessionProbed 0 (SessionGot None),
                              AuthEvent ''SIGNED_IN'' (Some alice_session), TimerFired 0]
                           initial_system)) = Some (ProfileFetch SignedInTimer, [])
   \<and> profile (state
        (step (ProfileReplied 0
                 (StoreReply None (Some \<lparr>pg_code = ''PGRST116'', pg_message = ''no rows''\<rparr>)))
           (run [SessionProbed 0 (SessionGot None),
                 AuthEvent ''SIGNED_IN'' (Some alice_session), TimerFired 0]
              initial_system))) = None
   \<and> error (state
        (step (ProfileReplied 0
                 (StoreReply None (Some \<lparr>pg_code = ''PGRST116'', pg_message = ''no rows''\<rparr>)))
           (run [SessionProbed 0 (SessionGot None),
                 AuthEvent ''SIGNED_IN'' (Some alice_session), TimerFired 0]
              initial_system))) = None
   \<and> pending
        (step (ProfileReplied 0
                 (StoreReply None (Some \<lparr>pg_code = ''PGRST116'', pg_message = ''no rows''\<rparr>)))
           (run [SessionProbed 0 (SessionGot None),
                 AuthEvent ''SIGNED_IN'' (Some alice_session), TimerFired 0]
              initial_system)) = []"
  using loadUserProfile_not_found [of 0
      "run [SessionProbed 0 (SessionGot None), AuthEvent ''SIGNED_IN'' (Some alice_session),
            TimerFired 0] initial_system"
      SignedInTimer "[]" "\<lparr>pg_code = ''PGRST116'', pg_message = ''no rows''\<rparr>" None]
  unfolding run_load_in_flight
  by (simp add: take_task_def initial_state_def)



end
